theory Spec2Isabelle
  imports Complex_Main "HOL-Library.Sublist"
begin

section \<open>Numbers and strings of the TypeScript source\<close>

text \<open>
  The trading bot (\<^verbatim>\<open>scripts/nba-trade-bot-v2.ts\<close>) and the dashboard page are
  TypeScript. A \<^verbatim>\<open>number\<close> that carries a price, a percentage or a multiplier is
  modelled as an exact \<^typ>\<open>real\<close>; contract counts and millisecond timestamps are
  \<^typ>\<open>int\<close>. A \<^verbatim>\<open>T | null\<close> is a \<^typ>\<open>'a option\<close>. Strings are \<^typ>\<open>string\<close>
  restricted to ASCII: \<^verbatim>\<open>toLowerCase\<close> lowers \<^verbatim>\<open>A\<close>..\<^verbatim>\<open>Z\<close> and the
  white space class \<^verbatim>\<open>\s\<close> is tab, line feed, vertical tab, form feed, carriage
  return and space.
\<close>

definition Math_round :: "real \<Rightarrow> int" where
  \<comment> \<open>\<^verbatim>\<open>Math.round\<close>: the nearest integer, halves upwards.\<close>
  "Math_round x = \<lfloor>x + 1 / 2\<rfloor>"

definition toLowerChar :: "char \<Rightarrow> char" where
  "toLowerChar c =
     (let n = (of_char c :: nat) in if 65 \<le> n \<and> n \<le> 90 then char_of (n + 32) else c)"

definition toLowerCase :: "string \<Rightarrow> string" where
  "toLowerCase s = map toLowerChar s"

definition str_includes :: "string \<Rightarrow> string \<Rightarrow> bool" where
  \<comment> \<open>\<^verbatim>\<open>s.includes(kw)\<close>: \<open>kw\<close> occurs in \<open>s\<close> as a contiguous run.\<close>
  "str_includes s kw = sublist kw s"

definition isSpace :: "char \<Rightarrow> bool" where
  "isSpace c = (of_char c \<in> {9, 10, 11, 12, 13, 32 :: nat})"

fun collapseSpaces :: "string \<Rightarrow> string" where
  \<comment> \<open>\<^verbatim>\<open>s.replace(/\s+/g, " ")\<close>: each maximal run of white space becomes one space.\<close>
  "collapseSpaces [] = []"
| "collapseSpaces [c] = [if isSpace c then CHR '' '' else c]"
| "collapseSpaces (c # d # cs) =
     (if isSpace c then (if isSpace d then collapseSpaces (d # cs)
                         else CHR '' '' # collapseSpaces (d # cs))
      else c # collapseSpaces (d # cs))"

definition trim :: "string \<Rightarrow> string" where
  "trim s = rev (dropWhile isSpace (rev (dropWhile isSpace s)))"

fun splitSpace :: "string \<Rightarrow> string list" where
  \<comment> \<open>\<^verbatim>\<open>s.split(" ")\<close>: the pieces between single spaces; never an empty array.\<close>
  "splitSpace [] = [[]]"
| "splitSpace (c # cs) =
     (if c = CHR '' '' then [] # splitSpace cs
      else (case splitSpace cs of [] \<Rightarrow> [[c]] | w # ws \<Rightarrow> (c # w) # ws))"

section \<open>Dynamic position sizing\<close>

text \<open>
  \<^verbatim>\<open>calculateDynamicPositionSize(basePct, confidenceScore, currentPrice, sourceMultiplier)\<close>.
  The odds factor is guarded: a price that is not positive gives the factor 1.
\<close>

definition oddsMultiplier :: "real \<Rightarrow> real" where
  "oddsMultiplier currentPrice =
     (if currentPrice > 0 then min 2 ((100 - currentPrice) / 50) else 1)"

definition confidenceMultiplier :: "real \<Rightarrow> real" where
  "confidenceMultiplier confidenceScore = 1 / 2 + confidenceScore / 100"

definition calculateDynamicPositionSize :: "real \<Rightarrow> real \<Rightarrow> real \<Rightarrow> real \<Rightarrow> real" where
  "calculateDynamicPositionSize basePct confidenceScore currentPrice sourceMultiplier =
     (let finalPct = basePct * oddsMultiplier currentPrice
                       * confidenceMultiplier confidenceScore * sourceMultiplier
      in min finalPct (basePct * 2))"

section \<open>Confidence tiers and the keyword classifier\<close>

datatype tier_action = buy_yes | buy_no | sell_yes | hold

record ConfidenceTier =
  level :: nat
  name :: string
  positionPct :: real
  maxPrice :: real
  action :: tier_action

text \<open>The static table \<^verbatim>\<open>CONFIDENCE_TIERS\<close>, one constant per key.\<close>

definition CONFIRMED :: ConfidenceTier where
  "CONFIRMED = \<lparr>level = 1, name = ''Confirmed'', positionPct = 1, maxPrice = 99, action = buy_yes\<rparr>"

definition IMMINENT :: ConfidenceTier where
  "IMMINENT = \<lparr>level = 2, name = ''Imminent'', positionPct = 1 / 2, maxPrice = 92, action = buy_yes\<rparr>"

definition SERIOUS :: ConfidenceTier where
  "SERIOUS = \<lparr>level = 3, name = ''Serious'', positionPct = 1 / 4, maxPrice = 80, action = buy_yes\<rparr>"

definition EXPLORING :: ConfidenceTier where
  "EXPLORING = \<lparr>level = 4, name = ''Exploring'', positionPct = 0, maxPrice = 0, action = hold\<rparr>"

definition NEGATIVE :: ConfidenceTier where
  "NEGATIVE = \<lparr>level = 5, name = ''Negative'', positionPct = 1 / 2, maxPrice = 50, action = buy_no\<rparr>"

text \<open>The keyword lists \<^verbatim>\<open>TIER_KEYWORDS\<close>.\<close>

definition KW_CONFIRMED :: "string list" where
  "KW_CONFIRMED =
     [''traded to'', ''has been traded'', ''is being traded'', ''deal done'', ''deal is done'',
      ''trade complete'', ''sending'', ''just in:'', ''breaking:'',
      ''trade finalized'', ''officially traded'', ''deal agreed'']"

definition KW_IMMINENT :: "string list" where
  "KW_IMMINENT =
     [''finalizing'', ''close to done'', ''expected to'', ''on verge of'', ''imminent'',
      ''agreement in place'', ''will be traded'', ''set to acquire'', ''poised to'',
      ''working to finalize'', ''nearing completion'']"

definition KW_SERIOUS :: "string list" where
  "KW_SERIOUS =
     [''ramped up'', ''serious discussions'', ''pushing hard'', ''engaged in talks'',
      ''in deep negotiations'', ''progressing'', ''gaining momentum'', ''intensifying'',
      ''advanced talks'', ''significant progress'']"

definition KW_EXPLORING :: "string list" where
  "KW_EXPLORING =
     [''interested in'', ''exploring'', ''could'', ''might'', ''discussing'',
      ''monitoring'', ''keeping an eye on'', ''on their radar'']"

definition KW_NEGATIVE :: "string list" where
  "KW_NEGATIVE =
     [''no longer'', ''not trading'', ''staying'', ''removed from'', ''off the table'',
      ''talks stalled'', ''unlikely'', ''not happening'', ''will not be traded'',
      ''committed to staying'', ''ruled out'', ''deal fell through'',
      ''pivoted to'', ''pivoted away'', ''instead of'', ''rather than'', ''passed on'',
      ''went with'', ''chose'', ''opted for'']"

definition matchesAny :: "string list \<Rightarrow> string \<Rightarrow> bool" where
  \<comment> \<open>\<^verbatim>\<open>kws.some(kw => lowerText.includes(kw))\<close>\<close>
  "matchesAny kws lowerText = list_ex (\<lambda>kw. str_includes lowerText kw) kws"

definition classifyConfidence :: "string \<Rightarrow> ConfidenceTier" where
  "classifyConfidence text =
     (let lowerText = toLowerCase text in
      if matchesAny KW_NEGATIVE lowerText then NEGATIVE
      else if matchesAny KW_CONFIRMED lowerText then CONFIRMED
      else if matchesAny KW_IMMINENT lowerText then IMMINENT
      else if matchesAny KW_SERIOUS lowerText then SERIOUS
      else if matchesAny KW_EXPLORING lowerText then EXPLORING
      else EXPLORING)"

section \<open>Market cache and the market resolver\<close>

text \<open>
  \<^verbatim>\<open>type Market = TradeMarket | NextTeamMarket\<close>: the fields both share, extended by
  the fields of each kind (the \<^verbatim>\<open>id\<close> copy of the ticker and the constant
  \<^verbatim>\<open>type\<close> tag are left out). \<^verbatim>\<open>yes_price\<close> is a fraction of a dollar.
\<close>

record Market =
  ticker :: string
  player_name :: string
  yes_price :: "real option"

record TradeMarket = Market +
  volume :: real
  open_interest :: real

record NextTeamMarket = Market +
  team_code :: string
  team_name :: string

definition normalizeName :: "string \<Rightarrow> string" where
  \<comment> \<open>\<^verbatim>\<open>name.toLowerCase().replace(/\./g, "").replace(/\s+/g, " ").trim()\<close>\<close>
  "normalizeName n = trim (collapseSpaces (filter (\<lambda>c. c \<noteq> CHR ''.'') (toLowerCase n)))"

definition firstWord :: "string list \<Rightarrow> string" where
  \<comment> \<open>\<^verbatim>\<open>words[0] ?? ""\<close>\<close>
  "firstWord ws = (case ws of [] \<Rightarrow> [] | w # _ \<Rightarrow> w)"

definition lastWord :: "string list \<Rightarrow> string" where
  \<comment> \<open>\<^verbatim>\<open>words[words.length - 1] ?? ""\<close>\<close>
  "lastWord ws = (if ws = [] then [] else last ws)"

definition exactMatch :: "string \<Rightarrow> TradeMarket \<Rightarrow> bool" where
  "exactMatch searchName market = (normalizeName (player_name market) = searchName)"

definition partialMatch :: "string \<Rightarrow> TradeMarket \<Rightarrow> bool" where
  "partialMatch searchName market =
     (let marketWords = splitSpace (normalizeName (player_name market));
          searchWords = splitSpace searchName;
          marketLast = lastWord marketWords;
          searchLast = lastWord searchWords;
          marketFirst = firstWord marketWords;
          searchFirst = firstWord searchWords
      in length marketLast \<ge> 4 \<and> marketLast = searchLast \<and> marketFirst = searchFirst)"

definition findTradeMarket :: "TradeMarket list \<Rightarrow> string \<Rightarrow> TradeMarket option" where
  \<comment> \<open>Two passes over \<^verbatim>\<open>tradeMarkets\<close>: exact matches first, then first and last name.\<close>
  "findTradeMarket tradeMarkets playerName =
     (let searchName = normalizeName playerName in
      case find (exactMatch searchName) tradeMarkets of
        Some market \<Rightarrow> Some market
      | None \<Rightarrow> find (partialMatch searchName) tradeMarkets)"


section \<open>Bot state, settings and observable effects\<close>

datatype side = yes | no

datatype order_action = buy | sell

record Features =
  twitter_monitoring :: bool
  price_spike_trading :: bool
  orderbook_monitoring :: bool
  profit_taking :: bool
  telegram_notifications :: bool

record BotSettings =
  base_contract_count :: int
  max_price_confirmed :: real
  max_price_imminent :: real
  max_price_serious :: real
  min_volume_for_alert :: real
  min_volume_for_auto_buy :: real
  price_spike_threshold :: real
  price_spike_max_entry :: real
  price_spike_require_twitter :: bool
  price_spike_cooldown_minutes :: real
  price_spike_position_limit :: real
  features :: Features

record Tweet =
  tweet_id :: string
  tweet_text :: string
  author :: string
  created_at :: string

record TradeSignal =
  player :: string
  team :: "string option"
  confidence :: ConfidenceTier
  confidence_score :: real
  tweet :: Tweet
  llm_analysis_id :: "int option"

text \<open>
  The body of the limit order posted to \<^verbatim>\<open>/portfolio/orders\<close> (the \<^verbatim>\<open>type\<close> is always
  \<^verbatim>\<open>limit\<close>; the price is sent under \<^verbatim>\<open>yes_price\<close> or \<^verbatim>\<open>no_price\<close> according to the
  side; the client order id, built from the tweet id and the clock, is left out).
\<close>

record Order =
  order_ticker :: string
  order_side :: side
  order_action :: order_action
  order_count :: int
  order_price :: real

text \<open>The row inserted into the \<^verbatim>\<open>trades\<close> table after an accepted order.\<close>

record TradeRow =
  market_ticker :: string
  order_id :: string
  trade_side :: side
  trade_action :: order_action
  price_cents :: real
  contract_count :: int
  status :: string
  row_llm_analysis_id :: "int option"
  meta_player_name :: string
  meta_team :: "string option"
  meta_confidence_tier :: string
  meta_tweet_id :: string
  meta_tweet_author :: string

text \<open>The row inserted into the \<^verbatim>\<open>signals\<close> table by the price monitor.\<close>

record SignalRow =
  market_id :: string
  old_price :: real
  new_price :: real
  pct_change :: real
  direction_up :: bool
  signal_volume :: real
  signal_open_interest :: real
  significance_score :: real

text \<open>
  Messages handed to \<^verbatim>\<open>sendTelegramNotification\<close> (whether they are delivered depends on
  the Telegram configuration and is not modelled), by their headline and the values they
  report.
\<close>

datatype notification =
    Order_skipped string real real string
  | Order_placed string order_action int side real string string
  | Price_spike string real real real bool
  | Near_resolution_exit string side real real int
  | Partial_profit_taking string side real real int int
  | Stop_loss_triggered string side real real int
  | Deadline_liquidation string side real real

text \<open>
  Messages written to the console by the modelled functions (the consecutive lines of one
  message are one entry), by what they report.
\<close>

datatype log_line =
    Log_trading_disabled order_action int side string real
  | Log_skip_dedup string int
  | Log_order_start order_action int side string
  | Log_orderbook_far real real
  | Log_sell_certain real
  | Log_sell_market real real
  | Log_sell_no_price_data string real
  | Log_skip_priced_in real
  | Log_skip_above_max real real string
  | Log_confirmed_bid real real
  | Log_imminent_bid real real real
  | Log_buy_no_price_data string real
  | Log_order_summary string int side real "real option" "real option" real
  | Log_order_failed string
  | Log_order_success string string
  | Log_order_exception string
  | Log_price_low_volume string bool real real
  | Log_price_alert string bool real
  | Log_spike_auto_buy real
  | Log_spike_trading_disabled real
  | Log_spike_alert_only real
  | Log_profit_disabled
  | Log_profit_checking nat real
  | Log_resting_exists string
  | Log_no_buy_fills string side
  | Log_fill int real real
  | Log_fills_total int real
  | Log_near_resolution string real
  | Log_partial_profit string real int int
  | Log_stop_loss string real
  | Log_deadline_urgency string real
  | Log_monitoring string side real real real

text \<open>
  Everything the modelled functions do to the outside world, in the order they do it:
  console lines, requests to the exchange, notification requests, database inserts, the
  calls of the spike handler and of \<^verbatim>\<open>executeSell\<close>, and the timer that
  \<^verbatim>\<open>executeSell\<close> arms.
\<close>

datatype effect =
    Console log_line
  | Get_orderbook string
  | Post_order Order
  | Get_positions
  | Get_resting_orders
  | Get_fills string
  | Telegram notification
  | Insert_trade TradeRow
  | Insert_signal SignalRow
  | Call_handlePriceSpike string real real
  | Call_executeSell string side int real
  | Set_timeout_clear_pending string

record PriceSnapshot =
  price :: real
  timestamp :: int

text \<open>
  The module-level variables the modelled functions read and write
  (\<^verbatim>\<open>recentBuys\<close>, \<^verbatim>\<open>pendingSellOrders\<close>, \<^verbatim>\<open>priceHistory\<close>, \<^verbatim>\<open>tradeMarkets\<close>,
  \<^verbatim>\<open>nextTeamMarkets\<close>, \<^verbatim>\<open>botSettings\<close>), with the trace of effects so far.
\<close>

record BotState =
  recentBuys :: "string \<rightharpoonup> int"
  pendingSellOrders :: "string set"
  priceHistory :: "string \<rightharpoonup> PriceSnapshot list"
  tradeMarkets :: "TradeMarket list"
  nextTeamMarkets :: "NextTeamMarket list"
  botSettings :: BotSettings
  trace :: "effect list"

definition emit :: "effect list \<Rightarrow> BotState \<Rightarrow> BotState" where
  "emit es st = st\<lparr>trace := trace st @ es\<rparr>"

section \<open>Order execution\<close>

definition DEDUP_COOLDOWN_MS :: int where
  "DEDUP_COOLDOWN_MS = 300000"

definition NBA_TRADING_DISABLED :: bool where
  \<comment> \<open>The kill switch, a constant of the source.\<close>
  "NBA_TRADING_DISABLED = True"

definition SLIPPAGE :: real where
  "SLIPPAGE = 3"

text \<open>
  What one call of \<^verbatim>\<open>placeOrder\<close> reads from outside: the clock at the deduplication
  check, the reply to the order book request, the reply to the order request, and the
  clock when the buy is tracked and when old entries are cleaned up. Request signing
  (\<^verbatim>\<open>getKalshiHeaders\<close>) is taken to succeed.
\<close>

datatype orderbook_reply =
    Orderbook_unavailable
  | Orderbook_bids "real list" "real list"

datatype order_reply =
    Request_throws string
  | Reply_not_ok string
  | Reply_ok_without_order string
  | Reply_ok string string

record OrderEnv =
  now_check :: int
  orderbook :: orderbook_reply
  reply :: order_reply
  now_track :: int
  now_cleanup :: int

datatype order_error =
    Trading_disabled
  | Dedup_bought_ago int
  | Market_already_priced_in real
  | Market_above_tier_max real real
  | Exchange_error string
  | Exception string

datatype order_result = Success string | Failure order_error

definition getOrderbook :: "orderbook_reply \<Rightarrow> real option \<times> real option" where
  \<comment> \<open>The pair \<^verbatim>\<open>{yes_ask, no_ask}\<close>: each ask is 100 minus the best bid of the other side
      (\<open>Orderbook_bids yesBids noBids\<close> lists the bid prices, best first); a failed request
      gives no ask.\<close>
  "getOrderbook r =
     (case r of
        Orderbook_unavailable \<Rightarrow> (None, None)
      | Orderbook_bids yesBids noBids \<Rightarrow>
          ((case noBids of [] \<Rightarrow> None | noBid # _ \<Rightarrow> Some (100 - noBid)),
           (case yesBids of [] \<Rightarrow> None | yesBid # _ \<Rightarrow> Some (100 - yesBid))))"

definition cachedMarket :: "BotState \<Rightarrow> string \<Rightarrow> Market option" where
  \<comment> \<open>\<^verbatim>\<open>tradeMarkets.find(m => m.ticker === ticker) ?? nextTeamMarkets.find(...)\<close>\<close>
  "cachedMarket st t =
     (case find (\<lambda>m. ticker m = t) (tradeMarkets st) of
        Some m \<Rightarrow> Some (Market.truncate m)
      | None \<Rightarrow> map_option Market.truncate (find (\<lambda>m. ticker m = t) (nextTeamMarkets st)))"

definition cachedYesPriceCents :: "Market option \<Rightarrow> real option" where
  \<comment> \<open>\<^verbatim>\<open>cachedMarket?.yes_price ? Math.round(cachedMarket.yes_price * 100) : null\<close>:
      a missing market, a missing price and the price 0 all give \<^verbatim>\<open>null\<close>.\<close>
  "cachedYesPriceCents m =
     (case m of
        None \<Rightarrow> None
      | Some mk \<Rightarrow>
          (case yes_price mk of
             None \<Rightarrow> None
           | Some y \<Rightarrow> if y = 0 then None else Some (real_of_int (Math_round (y * 100)))))"

definition lastPriceOf :: "side \<Rightarrow> real option \<Rightarrow> real option" where
  \<comment> \<open>The cached last trade price, converted to the side of the order.\<close>
  "lastPriceOf sd yesPrice =
     (case yesPrice of None \<Rightarrow> None | Some yp \<Rightarrow> Some (if sd = yes then yp else 100 - yp))"

definition referencePrice :: "real option \<Rightarrow> real option \<Rightarrow> real option \<times> effect list" where
  \<comment> \<open>The reconciliation of the order book ask with the last trade price, with the line
      it logs.\<close>
  "referencePrice currentAsk lastPrice =
     (case (currentAsk, lastPrice) of
        (Some a, Some l) \<Rightarrow>
          if \<bar>a - l\<bar> > 20 then (Some l, [Console (Log_orderbook_far a l)])
          else (Some a, [])
      | _ \<Rightarrow> ((case currentAsk of Some a \<Rightarrow> Some a | None \<Rightarrow> lastPrice), []))"

definition sellPrice :: "string \<Rightarrow> real option \<Rightarrow> real \<Rightarrow> real \<times> effect list" where
  "sellPrice tk refP maxP =
     (case refP of
        Some r \<Rightarrow>
          if r \<ge> 95 then (r, [Console (Log_sell_certain r)])
          else (max (r - 1) 1, [Console (Log_sell_market (max (r - 1) 1) r)])
      | None \<Rightarrow> (maxP, [Console (Log_sell_no_price_data tk maxP)]))"

definition buyPrice ::
  "string \<Rightarrow> real option \<Rightarrow> real \<Rightarrow> TradeSignal \<Rightarrow> (order_error + real) \<times> effect list" where
  "buyPrice tk refP maxP signal =
     (case refP of
        Some r \<Rightarrow>
          if r \<ge> 98 then
            (Inl (Market_already_priced_in r), [Console (Log_skip_priced_in r)])
          else if r > maxP then
            (Inl (Market_above_tier_max r maxP),
             [Console (Log_skip_above_max r maxP (name (confidence signal))),
              Telegram (Order_skipped (player signal) r maxP (name (confidence signal)))])
          else if name (confidence signal) = ''Confirmed'' then
            (Inr maxP, [Console (Log_confirmed_bid maxP r)])
          else if name (confidence signal) = ''Imminent'' then
            (let p = min (real_of_int (Math_round ((r + maxP) / 2))) maxP
             in (Inr p, [Console (Log_imminent_bid p r maxP)]))
          else (Inr (min (r + SLIPPAGE) maxP), [])
      | None \<Rightarrow> (Inr maxP, [Console (Log_buy_no_price_data tk maxP)]))"

definition dedupBlocked :: "(string \<rightharpoonup> int) \<Rightarrow> string \<Rightarrow> int \<Rightarrow> bool" where
  \<comment> \<open>\<^verbatim>\<open>lastBuy && now - lastBuy < DEDUP_COOLDOWN_MS\<close>; a stored timestamp 0 is falsy.\<close>
  "dedupBlocked rb tk now =
     (case rb tk of
        None \<Rightarrow> False
      | Some lastBuy \<Rightarrow> lastBuy \<noteq> 0 \<and> now - lastBuy < DEDUP_COOLDOWN_MS)"

definition secsAgo :: "(string \<rightharpoonup> int) \<Rightarrow> string \<Rightarrow> int \<Rightarrow> int" where
  "secsAgo rb tk now =
     (case rb tk of
        None \<Rightarrow> 0
      | Some lastBuy \<Rightarrow> Math_round (real_of_int (now - lastBuy) / 1000))"

definition trackBuy :: "(string \<rightharpoonup> int) \<Rightarrow> string \<Rightarrow> int \<Rightarrow> int \<Rightarrow> (string \<rightharpoonup> int)" where
  \<comment> \<open>\<^verbatim>\<open>recentBuys.set(ticker, Date.now())\<close>, then every entry older than the cool-down
      at the second clock reading is deleted.\<close>
  "trackBuy rb tk tracked cleaned =
     (\<lambda>t. case (rb(tk \<mapsto> tracked)) t of
             None \<Rightarrow> None
           | Some ts \<Rightarrow> if cleaned - ts > DEDUP_COOLDOWN_MS then None else Some ts)"

definition submitOrder ::
  "OrderEnv \<Rightarrow> BotState \<Rightarrow> string \<Rightarrow> side \<Rightarrow> order_action \<Rightarrow> int \<Rightarrow> real \<Rightarrow> TradeSignal
     \<Rightarrow> BotState \<times> order_result" where
  \<comment> \<open>The \<^verbatim>\<open>try\<close> block: post the order, and only when the exchange accepted it track
      the buy, notify and record the trade.\<close>
  "submitOrder env st tk sd act cnt p signal =
     (let order = \<lparr>order_ticker = tk, order_side = sd, order_action = act,
                   order_count = cnt, order_price = p\<rparr>;
          st1 = emit [Post_order order] st
      in case reply env of
           Request_throws e \<Rightarrow>
             (emit [Console (Log_order_exception e)] st1, Failure (Exception e))
         | Reply_not_ok body \<Rightarrow>
             (emit [Console (Log_order_failed body)] st1, Failure (Exchange_error body))
         | Reply_ok_without_order e \<Rightarrow>
             (emit [Console (Log_order_exception e)] st1, Failure (Exception e))
         | Reply_ok oid stat \<Rightarrow>
             (let st2 = emit [Console (Log_order_success oid stat)] st1;
                  st3 = (if act = buy
                         then st2\<lparr>recentBuys :=
                                trackBuy (recentBuys st2) tk (now_track env) (now_cleanup env)\<rparr>
                         else st2);
                  row = \<lparr>market_ticker = tk, order_id = oid, trade_side = sd,
                         trade_action = act, price_cents = p, contract_count = cnt,
                         status = stat, row_llm_analysis_id = llm_analysis_id signal,
                         meta_player_name = player signal, meta_team = team signal,
                         meta_confidence_tier = name (confidence signal),
                         meta_tweet_id = tweet_id (tweet signal),
                         meta_tweet_author = author (tweet signal)\<rparr>
              in (emit [Telegram (Order_placed (player signal) act cnt sd p
                                    (name (confidence signal)) stat),
                        Insert_trade row] st3,
                  Success oid)))"

definition placeOrder_body ::
  "bool \<Rightarrow> OrderEnv \<Rightarrow> BotState \<Rightarrow> string \<Rightarrow> side \<Rightarrow> order_action \<Rightarrow> int \<Rightarrow> real \<Rightarrow> TradeSignal
     \<Rightarrow> BotState \<times> order_result" where
  \<comment> \<open>\<^verbatim>\<open>placeOrder\<close>, with the value of the kill switch as its first argument.\<close>
  "placeOrder_body disabled env st tk sd act cnt maxP signal =
     (if disabled then
        (emit [Console (Log_trading_disabled act cnt sd tk maxP)] st, Failure Trading_disabled)
      else if act = buy \<and> dedupBlocked (recentBuys st) tk (now_check env) then
        (emit [Console (Log_skip_dedup tk (secsAgo (recentBuys st) tk (now_check env)))] st,
         Failure (Dedup_bought_ago (secsAgo (recentBuys st) tk (now_check env))))
      else
        (let st1 = emit [Console (Log_order_start act cnt sd tk), Get_orderbook tk] st;
             (yes_ask, no_ask) = getOrderbook (orderbook env);
             currentAsk = (if sd = yes then yes_ask else no_ask);
             lastPrice = lastPriceOf sd (cachedYesPriceCents (cachedMarket st tk));
             (refP, refLog) = referencePrice currentAsk lastPrice;
             st2 = emit refLog st1
         in if act = sell then
              (let (p, es) = sellPrice tk refP maxP;
                   st3 = emit (es @ [Console (Log_order_summary tk cnt sd p currentAsk lastPrice maxP)]) st2
               in submitOrder env st3 tk sd act cnt p signal)
            else
              (case buyPrice tk refP maxP signal of
                 (Inl err, es) \<Rightarrow> (emit es st2, Failure err)
               | (Inr p, es) \<Rightarrow>
                   (let st3 = emit (es @ [Console (Log_order_summary tk cnt sd p currentAsk lastPrice maxP)]) st2
                    in submitOrder env st3 tk sd act cnt p signal))))"

definition placeOrder ::
  "OrderEnv \<Rightarrow> BotState \<Rightarrow> string \<Rightarrow> side \<Rightarrow> order_action \<Rightarrow> int \<Rightarrow> real \<Rightarrow> TradeSignal
     \<Rightarrow> BotState \<times> order_result" where
  "placeOrder = placeOrder_body NBA_TRADING_DISABLED"

section \<open>Price movement detection\<close>

definition PRICE_ALERT_THRESHOLD :: real where
  "PRICE_ALERT_THRESHOLD = 1 / 10"

definition PRICE_HISTORY_WINDOW_MS :: int where
  "PRICE_HISTORY_WINDOW_MS = 5 * 60 * 1000"

definition prunedWindow :: "int \<Rightarrow> BotState \<Rightarrow> string \<Rightarrow> real \<Rightarrow> PriceSnapshot list" where
  \<comment> \<open>The window of a ticker after the current sample is pushed and old samples are
      filtered out.\<close>
  "prunedWindow now st tk currentPrice =
     filter (\<lambda>p. now - timestamp p < PRICE_HISTORY_WINDOW_MS)
       ((case priceHistory st tk of None \<Rightarrow> [] | Some h \<Rightarrow> h)
          @ [\<lparr>price = currentPrice, timestamp = now\<rparr>])"

definition setHistory :: "string \<Rightarrow> PriceSnapshot list \<Rightarrow> BotState \<Rightarrow> BotState" where
  "setHistory tk h st = st\<lparr>priceHistory := (priceHistory st)(tk \<mapsto> h)\<rparr>"

definition spikeEffects :: "BotState \<Rightarrow> TradeMarket \<Rightarrow> real \<Rightarrow> real \<Rightarrow> real \<Rightarrow> effect list" where
  \<comment> \<open>The branch for an upward move of at least the spike threshold on a market with
      enough volume for an alert. \<^verbatim>\<open>handlePriceSpike\<close> is recorded as a call.\<close>
  "spikeEffects st market oldPrice currentPrice pctChange =
     (let vol = volume market;
          isVeryHighVolume = (vol \<ge> min_volume_for_auto_buy (botSettings st));
          trading = price_spike_trading (features (botSettings st))
      in Telegram (Price_spike (player_name market) oldPrice currentPrice pctChange isVeryHighVolume)
         # (if isVeryHighVolume \<and> trading then
              [Console (Log_spike_auto_buy vol),
               Call_handlePriceSpike (ticker market) oldPrice currentPrice]
            else if isVeryHighVolume \<and> \<not> trading then
              [Console (Log_spike_trading_disabled vol)]
            else [Console (Log_spike_alert_only vol)]))"

definition checkMarketPrice :: "int \<Rightarrow> BotState \<Rightarrow> TradeMarket \<Rightarrow> BotState" where
  \<comment> \<open>One round of the loop of \<^verbatim>\<open>checkPriceMovements\<close>. A market without a price, or
      with the price 0, is passed over. Stored samples have non-zero prices (see
      \<open>history_prices_nonzero\<close> below), so the division is by a non-zero price.\<close>
  "checkMarketPrice now st market =
     (case yes_price market of
        None \<Rightarrow> st
      | Some currentPrice \<Rightarrow>
          if currentPrice = 0 then st
          else
            (let tk = ticker market;
                 vol = volume market;
                 hist = prunedWindow now st tk currentPrice;
                 st1 = setHistory tk hist st
             in case hist of
                  oldest # _ # _ \<Rightarrow>
                    (let priceChange = currentPrice - price oldest;
                         pctChange = \<bar>priceChange / price oldest\<bar>;
                         significanceScore = pctChange * vol;
                         isHighVolume = (vol \<ge> min_volume_for_alert (botSettings st))
                     in if pctChange \<ge> PRICE_ALERT_THRESHOLD \<and> price oldest < 9 / 10 then
                          (if \<not> isHighVolume then
                             setHistory tk [\<lparr>price = currentPrice, timestamp = now\<rparr>]
                               (emit [Console (Log_price_low_volume (player_name market)
                                                 (priceChange > 0) pctChange vol)] st1)
                           else
                             setHistory tk [\<lparr>price = currentPrice, timestamp = now\<rparr>]
                               (emit
                                  ([Console (Log_price_alert (player_name market)
                                               (priceChange > 0) pctChange)]
                                   @ (if priceChange > 0
                                         \<and> pctChange \<ge> price_spike_threshold (botSettings st) / 100
                                      then spikeEffects st market (price oldest) currentPrice pctChange
                                      else [])
                                   @ [Insert_signal
                                        \<lparr>market_id = tk, old_price = price oldest,
                                         new_price = currentPrice, pct_change = pctChange,
                                         direction_up = (priceChange > 0), signal_volume = vol,
                                         signal_open_interest = open_interest market,
                                         significance_score = significanceScore\<rparr>])
                                  st1))
                        else st1)
                | _ \<Rightarrow> st1))"

definition checkPriceMovements :: "int \<Rightarrow> BotState \<Rightarrow> BotState" where
  "checkPriceMovements now st = foldl (checkMarketPrice now) st (tradeMarkets st)"

definition history_prices_nonzero :: "BotState \<Rightarrow> bool" where
  "history_prices_nonzero st =
     (\<forall>tk h. priceHistory st tk = Some h \<longrightarrow> (\<forall>p\<in>set h. price p \<noteq> 0))"


section \<open>Profit taking\<close>

record Position =
  position_ticker :: string
  contracts :: int
  position_side :: side

record Fill =
  fill_action :: order_action
  fill_side :: side
  fill_yes_price :: "real option"
  fill_count :: int

record ExchangeOrder =
  resting_ticker :: string
  resting_action :: order_action
  resting_status :: string

datatype orders_reply = Orders_request_throws | Orders_reply "ExchangeOrder list"

text \<open>
  What one run of \<^verbatim>\<open>checkProfitTaking\<close> reads from outside: the positions returned by
  \<^verbatim>\<open>getAllPositions\<close>, the reply to the query for resting orders, the clock, the fills
  of each ticker (\<open>None\<close> when the request throws) and what each call of
  \<^verbatim>\<open>placeOrder\<close> reads.
\<close>

record ProfitEnv =
  positions :: "Position list"
  resting_reply :: orders_reply
  now_ms :: int
  fills :: "string \<Rightarrow> Fill list option"
  order_env :: "string \<Rightarrow> OrderEnv"

definition getRestingOrders :: "orders_reply \<Rightarrow> string set" where
  \<comment> \<open>The tickers with a resting sell order at the exchange; empty when the query fails.\<close>
  "getRestingOrders r =
     (case r of
        Orders_request_throws \<Rightarrow> {}
      | Orders_reply os \<Rightarrow>
          set (map resting_ticker
                 (filter (\<lambda>order. resting_action order = sell \<and> resting_status order = ''resting'') os)))"

definition DEADLINE_MS :: int where
  \<comment> \<open>\<^verbatim>\<open>new Date("2026-02-05T20:00:00Z").getTime()\<close>\<close>
  "DEADLINE_MS = 1770321600000"

definition hoursUntilDeadline :: "int \<Rightarrow> real" where
  "hoursUntilDeadline now = real_of_int (DEADLINE_MS - now) / (1000 * 60 * 60)"

definition isFinalHours :: "int \<Rightarrow> bool" where
  "isFinalHours now = (hoursUntilDeadline now \<le> 3 \<and> hoursUntilDeadline now > 0)"

definition isNbaTicker :: "string \<Rightarrow> bool" where
  \<comment> \<open>\<^verbatim>\<open>startsWith("KXNBATRADE") || startsWith("KXNEXTTEAM")\<close>\<close>
  "isNbaTicker tk = (prefix ''KXNBATRADE'' tk \<or> prefix ''KXNEXTTEAM'' tk)"

definition buyFills :: "side \<Rightarrow> Fill list \<Rightarrow> Fill list" where
  "buyFills sd fs = filter (\<lambda>f. fill_action f = buy \<and> fill_side f = sd) fs"

definition actualPrice :: "side \<Rightarrow> Fill \<Rightarrow> real" where
  \<comment> \<open>\<^verbatim>\<open>const yp = fill.yes_price ?? 0; pos.side === "no" ? 100 - yp : yp\<close>\<close>
  "actualPrice sd f =
     (let yp = (case fill_yes_price f of None \<Rightarrow> 0 | Some y \<Rightarrow> y)
      in if sd = no then 100 - yp else yp)"

definition totalCost :: "side \<Rightarrow> Fill list \<Rightarrow> real" where
  "totalCost sd fs = (\<Sum>f\<leftarrow>fs. actualPrice sd f * real_of_int (fill_count f))"

definition totalContracts :: "Fill list \<Rightarrow> int" where
  "totalContracts fs = (\<Sum>f\<leftarrow>fs. fill_count f)"

definition avgEntryPrice :: "side \<Rightarrow> Fill list \<Rightarrow> real" where
  "avgEntryPrice sd fs =
     (if totalContracts fs > 0 then totalCost sd fs / real_of_int (totalContracts fs) else 0)"

definition currentSidePrice :: "side \<Rightarrow> real \<Rightarrow> real" where
  "currentSidePrice sd yesPrice = (if sd = yes then yesPrice else 1 - yesPrice)"

definition currentPriceCents :: "side \<Rightarrow> real \<Rightarrow> real" where
  "currentPriceCents sd yesPrice = real_of_int (Math_round (currentSidePrice sd yesPrice * 100))"

definition profitPerContract :: "side \<Rightarrow> real \<Rightarrow> real \<Rightarrow> real" where
  "profitPerContract sd yesPrice avgEntry = currentPriceCents sd yesPrice - avgEntry"

definition profitPercent :: "side \<Rightarrow> real \<Rightarrow> real \<Rightarrow> real" where
  "profitPercent sd yesPrice avgEntry =
     (if avgEntry > 0 then profitPerContract sd yesPrice avgEntry / avgEntry * 100 else 0)"

datatype exit_rule = Near_resolution | Partial_profit | Stop_loss | Deadline_urgency

datatype decision = Sell exit_rule int real | Hold

definition exitDecision :: "bool \<Rightarrow> Position \<Rightarrow> real \<Rightarrow> real \<Rightarrow> decision" where
  \<comment> \<open>The four strategies in the order of the source; each sell ends the round for the
      position (\<^verbatim>\<open>continue\<close>). \<open>Sell rule count price\<close> is the call of
      \<^verbatim>\<open>executeSell\<close> with that count and limit price.\<close>
  "exitDecision finalHours pos yesPrice avgEntry =
     (let sd = position_side pos;
          sidePrice = currentSidePrice sd yesPrice;
          cents = currentPriceCents sd yesPrice;
          perContract = profitPerContract sd yesPrice avgEntry;
          pct = profitPercent sd yesPrice avgEntry;
          sellCount = \<lfloor>real_of_int (contracts pos) * (1 / 2)\<rfloor>
      in if sidePrice \<ge> 95 / 100 \<and> perContract \<ge> 5 then
           Sell Near_resolution (contracts pos) (max (avgEntry + 3) (cents - 2))
         else if pct \<ge> 30 \<and> cents \<ge> 60 \<and> sellCount \<ge> 5 then
           Sell Partial_profit sellCount (cents - 2)
         else if pct \<le> - 40 \<and> \<not> finalHours then
           Sell Stop_loss (contracts pos) (cents - 3)
         else if finalHours \<and> sidePrice < 60 / 100 then
           Sell Deadline_urgency (contracts pos) (cents - 5)
         else Hold)"




definition strategyEffects ::
  "exit_rule \<Rightarrow> string \<Rightarrow> Position \<Rightarrow> real \<Rightarrow> real \<Rightarrow> real \<Rightarrow> int \<Rightarrow> effect list" where
  \<comment> \<open>The console line and the notification of a strategy that fires.\<close>
  "strategyEffects rule nm pos avgEntry cents pct cnt =
     (case rule of
        Near_resolution \<Rightarrow>
          [Console (Log_near_resolution nm cents),
           Telegram (Near_resolution_exit nm (position_side pos) avgEntry cents (contracts pos))]
      | Partial_profit \<Rightarrow>
          [Console (Log_partial_profit nm pct cnt (contracts pos)),
           Telegram (Partial_profit_taking nm (position_side pos) avgEntry cents cnt (contracts pos))]
      | Stop_loss \<Rightarrow>
          [Console (Log_stop_loss nm pct),
           Telegram (Stop_loss_triggered nm (position_side pos) avgEntry cents (contracts pos))]
      | Deadline_urgency \<Rightarrow>
          [Console (Log_deadline_urgency nm cents),
           Telegram (Deadline_liquidation nm (position_side pos) cents avgEntry)])"

datatype skip_reason =
    Not_an_NBA_ticker | Resting_sell_order | No_market_price | Fills_request_throws | No_buy_fills

datatype verdict = Skipped skip_reason | Evaluated real "Fill list" decision

definition positionVerdict :: "ProfitEnv \<Rightarrow> BotState \<Rightarrow> Position \<Rightarrow> verdict" where
  \<comment> \<open>What the round of the loop finds for one position, in the order of its tests:
      a reason to pass over it, or the market's YES price, the buy fills of the
      position's side and the decision of the strategies.\<close>
  "positionVerdict env st pos =
     (let tk = position_ticker pos; market = cachedMarket st tk in
      if \<not> isNbaTicker tk then Skipped Not_an_NBA_ticker
      else if tk \<in> getRestingOrders (resting_reply env) \<or> tk \<in> pendingSellOrders st then
        Skipped Resting_sell_order
      else
        (case (case market of None \<Rightarrow> None | Some m \<Rightarrow> yes_price m) of
           None \<Rightarrow> Skipped No_market_price
         | Some yesPrice \<Rightarrow>
             (case fills env tk of
                None \<Rightarrow> Skipped Fills_request_throws
              | Some fs \<Rightarrow>
                  (let bf = buyFills (position_side pos) fs in
                   if bf = [] then Skipped No_buy_fills
                   else Evaluated yesPrice bf
                          (exitDecision (isFinalHours (now_ms env)) pos yesPrice
                             (avgEntryPrice (position_side pos) bf))))))"




definition isSellCall :: "effect \<Rightarrow> bool" where
  "isSellCall e = (case e of Call_executeSell _ _ _ _ \<Rightarrow> True | _ \<Rightarrow> False)"

definition sellCalls :: "effect list \<Rightarrow> effect list" where
  \<comment> \<open>The calls of \<^verbatim>\<open>executeSell\<close> in a trace, in order.\<close>
  "sellCalls es = filter isSellCall es"



section \<open>Dashboard: corrected positions\<close>

datatype market_type = trade | next_team






section \<open>Example data\<close>

text \<open>A cached market, a signal, the default settings and a state to run the functions on.\<close>

definition defaultSettings :: BotSettings where
  "defaultSettings =
     \<lparr>base_contract_count = 100, max_price_confirmed = 99, max_price_imminent = 92,
      max_price_serious = 80, min_volume_for_alert = 15000, min_volume_for_auto_buy = 25000,
      price_spike_threshold = 20, price_spike_max_entry = 85,
      price_spike_require_twitter = True, price_spike_cooldown_minutes = 2,
      price_spike_position_limit = 50,
      features = \<lparr>twitter_monitoring = True, price_spike_trading = False,
                  orderbook_monitoring = True, profit_taking = True,
                  telegram_notifications = True\<rparr>\<rparr>"

definition marketX :: TradeMarket where
  "marketX =
     \<lparr>ticker = ''KXNBATRADE-X'', player_name = ''Player X'', yes_price = Some (1 / 2),
      volume = 20000, open_interest = 1000\<rparr>"

definition state0 :: BotState where
  "state0 =
     \<lparr>recentBuys = Map.empty, pendingSellOrders = {}, priceHistory = Map.empty,
      tradeMarkets = [marketX], nextTeamMarkets = [], botSettings = defaultSettings,
      trace = []\<rparr>"

definition signalX :: TradeSignal where
  "signalX =
     \<lparr>player = ''Player X'', team = None, confidence = CONFIRMED, confidence_score = 95,
      tweet = \<lparr>tweet_id = ''1'', tweet_text = ''Player X has been traded'',
               author = ''insider'', created_at = []\<rparr>,
      llm_analysis_id = None\<rparr>"

definition envAccept :: "int \<Rightarrow> OrderEnv" where
  \<comment> \<open>The exchange quotes a thin book (best YES bid 18, best NO bid 20) and accepts the
      order; the three clock readings of the call are \<open>t\<close>, \<open>t + 500\<close> and \<open>t + 501\<close>.\<close>
  "envAccept t =
     \<lparr>now_check = t, orderbook = Orderbook_bids [18] [20],
      reply = Reply_ok ''order-1'' ''resting'', now_track = t + 500, now_cleanup = t + 501\<rparr>"





section \<open>Results: position sizing\<close>

lemma oddsMultiplier_nonneg: "p \<le> 100 \<Longrightarrow> 0 \<le> oddsMultiplier p"
  by (simp add: oddsMultiplier_def)

lemma size_le_twice_base: "calculateDynamicPositionSize b c p s \<le> 2 * b"
  by (simp add: calculateDynamicPositionSize_def Let_def)

lemma size_mono_confidence:
  assumes "0 \<le> b" "p \<le> 100" "0 \<le> s" "c1 \<le> c2"
  shows "calculateDynamicPositionSize b c1 p s \<le> calculateDynamicPositionSize b c2 p s"
proof -
  have k: "0 \<le> b * oddsMultiplier p"
    using assms oddsMultiplier_nonneg by simp
  have "confidenceMultiplier c1 \<le> confidenceMultiplier c2"
    using assms by (simp add: confidenceMultiplier_def)
  then have "b * oddsMultiplier p * confidenceMultiplier c1
               \<le> b * oddsMultiplier p * confidenceMultiplier c2"
    using k by (rule mult_left_mono)
  then have "b * oddsMultiplier p * confidenceMultiplier c1 * s
               \<le> b * oddsMultiplier p * confidenceMultiplier c2 * s"
    using assms(3) by (rule mult_right_mono)
  then show ?thesis
    by (simp add: calculateDynamicPositionSize_def Let_def min_le_iff_disj)
qed

text \<open>
  Claim C3, as stated, gives the odds factor \<open>min 2 ((100 - currentPrice) / 50)\<close> at every
  price. At the price 0 the source takes the factor 1 instead (the guard
  \<^verbatim>\<open>currentPrice > 0 ? ... : 1.0\<close>): with base 1, score 50 and reliability 1 the function
  returns 1 where the stated formula gives 2. Outside the price range the result is
  not monotone in the score either: at the price 150 a higher score gives a smaller
  result.
\<close>

theorem size_formula_counterexample:
  "calculateDynamicPositionSize 1 50 0 1 = 1
   \<and> min (1 * min 2 ((100 - 0) / 50) * (1 / 2 + 50 / 100) * 1) (1 * 2) = (2 :: real)
   \<and> calculateDynamicPositionSize 1 100 150 1 < calculateDynamicPositionSize 1 0 150 1"
  by (simp add: calculateDynamicPositionSize_def oddsMultiplier_def confidenceMultiplier_def)

text \<open>
  Claim C3, amended: for a positive current price the returned percentage is
  \<open>min (tierBasePct * oddsMultiplier * confidenceMultiplier * sourceReliabilityMultiplier)
  (tierBasePct * 2)\<close> with \<open>oddsMultiplier = min 2 ((100 - currentPrice) / 50)\<close> and
  \<open>confidenceMultiplier = 0.5 + confidenceScore / 100\<close>; for a price that is not positive
  the odds factor is 1. The result never exceeds twice the base percentage, and for a
  non-negative base percentage, a price of at most 100 and a non-negative reliability
  multiplier it is non-decreasing in the confidence score.
\<close>

theorem size_formula:
  "(0 < currentPrice \<longrightarrow>
      calculateDynamicPositionSize basePct score currentPrice rel =
        min (basePct * min 2 ((100 - currentPrice) / 50) * (1 / 2 + score / 100) * rel)
            (basePct * 2))
   \<and> (currentPrice \<le> 0 \<longrightarrow>
        calculateDynamicPositionSize basePct score currentPrice rel =
          min (basePct * 1 * (1 / 2 + score / 100) * rel) (basePct * 2))
   \<and> calculateDynamicPositionSize basePct score currentPrice rel \<le> 2 * basePct
   \<and> (0 \<le> basePct \<and> currentPrice \<le> 100 \<and> 0 \<le> rel \<and> score \<le> score' \<longrightarrow>
        calculateDynamicPositionSize basePct score currentPrice rel
          \<le> calculateDynamicPositionSize basePct score' currentPrice rel)"
proof (intro conjI impI)
  assume "0 < currentPrice"
  then show "calculateDynamicPositionSize basePct score currentPrice rel =
        min (basePct * min 2 ((100 - currentPrice) / 50) * (1 / 2 + score / 100) * rel)
            (basePct * 2)"
    by (simp add: calculateDynamicPositionSize_def oddsMultiplier_def confidenceMultiplier_def)
next
  assume "currentPrice \<le> 0"
  then show "calculateDynamicPositionSize basePct score currentPrice rel =
          min (basePct * 1 * (1 / 2 + score / 100) * rel) (basePct * 2)"
    by (simp add: calculateDynamicPositionSize_def oddsMultiplier_def confidenceMultiplier_def)
next
  show "calculateDynamicPositionSize basePct score currentPrice rel \<le> 2 * basePct"
    by (rule size_le_twice_base)
next
  assume "0 \<le> basePct \<and> currentPrice \<le> 100 \<and> 0 \<le> rel \<and> score \<le> score'"
  then show "calculateDynamicPositionSize basePct score currentPrice rel
          \<le> calculateDynamicPositionSize basePct score' currentPrice rel"
    by (simp add: size_mono_confidence)
qed

theorem size_formula_witness:
  "(0 :: real) < 70 \<and> calculateDynamicPositionSize 1 90 70 1 = 21 / 25
   \<and> (0 :: real) \<le> 0 \<and> calculateDynamicPositionSize (1 / 2) 50 0 1 = 1 / 2
   \<and> calculateDynamicPositionSize 1 90 70 1 \<le> 2 * 1
   \<and> (0 :: real) \<le> 1 \<and> (70 :: real) \<le> 100 \<and> (50 :: real) \<le> 90
   \<and> calculateDynamicPositionSize 1 50 70 1 \<le> calculateDynamicPositionSize 1 90 70 1"
  using size_formula [of 70 1 90 1 90] size_formula [of 0 "1 / 2" 50 1 50]
    size_formula [of 70 1 50 1 90]
  by simp
section \<open>Results: keyword classifier\<close>

lemma matchesAny_iff: "matchesAny kws t \<longleftrightarrow> (\<exists>kw\<in>set kws. str_includes t kw)"
  by (simp add: matchesAny_def list_ex_iff)

lemma toLowerCase_keeps_includes:
  "str_includes s kw \<Longrightarrow> str_includes (toLowerCase s) (toLowerCase kw)"
  unfolding str_includes_def toLowerCase_def by (rule map_mono_sublist)

lemma KW_NEGATIVE_lower: "list_all (\<lambda>kw. toLowerCase kw = kw) KW_NEGATIVE"
  by code_simp

lemma raw_negative_match:
  assumes "kw \<in> set KW_NEGATIVE" "str_includes s kw"
  shows "matchesAny KW_NEGATIVE (toLowerCase s)"
proof -
  have "toLowerCase kw = kw"
    using KW_NEGATIVE_lower assms(1) by (simp add: list_all_iff)
  with toLowerCase_keeps_includes[OF assms(2)] have "str_includes (toLowerCase s) kw"
    by simp
  with assms(1) show ?thesis by (auto simp: matchesAny_iff)
qed

text \<open>
  Claim C5: a text that contains a Negative-tier keyword (in the lower-cased text the
  classifier searches, hence also when the keyword stands in the text as written) is
  classified Negative, whatever Confirmed-, Imminent- or Serious-tier keywords it also
  contains. The positive tiers are tested only when no negative keyword matches, in the
  order Confirmed, Imminent, Serious, the first match winning, and Exploring is returned
  when none of them matches.
\<close>

theorem classifier_negative_priority:
  "((\<exists>kw\<in>set KW_NEGATIVE. str_includes (toLowerCase text) kw) \<longrightarrow>
       classifyConfidence text = NEGATIVE)
   \<and> ((\<exists>kw\<in>set KW_NEGATIVE. str_includes text kw) \<longrightarrow> classifyConfidence text = NEGATIVE)
   \<and> (\<not> (\<exists>kw\<in>set KW_NEGATIVE. str_includes (toLowerCase text) kw) \<longrightarrow>
        classifyConfidence text =
          (if \<exists>kw\<in>set KW_CONFIRMED. str_includes (toLowerCase text) kw then CONFIRMED
           else if \<exists>kw\<in>set KW_IMMINENT. str_includes (toLowerCase text) kw then IMMINENT
           else if \<exists>kw\<in>set KW_SERIOUS. str_includes (toLowerCase text) kw then SERIOUS
           else EXPLORING))"
proof (intro conjI impI)
  assume "\<exists>kw\<in>set KW_NEGATIVE. str_includes (toLowerCase text) kw"
  then show "classifyConfidence text = NEGATIVE"
    by (simp add: classifyConfidence_def matchesAny_iff)
next
  assume "\<exists>kw\<in>set KW_NEGATIVE. str_includes text kw"
  then have "matchesAny KW_NEGATIVE (toLowerCase text)"
    using raw_negative_match by blast
  then show "classifyConfidence text = NEGATIVE"
    by (simp add: classifyConfidence_def)
next
  assume "\<not> (\<exists>kw\<in>set KW_NEGATIVE. str_includes (toLowerCase text) kw)"
  then show "classifyConfidence text =
          (if \<exists>kw\<in>set KW_CONFIRMED. str_includes (toLowerCase text) kw then CONFIRMED
           else if \<exists>kw\<in>set KW_IMMINENT. str_includes (toLowerCase text) kw then IMMINENT
           else if \<exists>kw\<in>set KW_SERIOUS. str_includes (toLowerCase text) kw then SERIOUS
           else EXPLORING)"
    by (simp add: classifyConfidence_def matchesAny_iff)
qed

theorem classifier_negative_priority_witness:
  "str_includes (toLowerCase ''Sources: Player X has been traded, Player Y is STAYING'')
     ''has been traded''
   \<and> str_includes (toLowerCase ''Sources: Player X has been traded, Player Y is STAYING'')
     ''staying''
   \<and> classifyConfidence ''Sources: Player X has been traded, Player Y is STAYING'' = NEGATIVE
   \<and> classifyConfidence ''Sources: Player X has been traded to Team Y'' = CONFIRMED"
proof -
  let ?t = "''Sources: Player X has been traded, Player Y is STAYING''"
  let ?u = "''Sources: Player X has been traded to Team Y''"
  have a: "str_includes (toLowerCase ?t) ''has been traded''" by code_simp
  have b: "str_includes (toLowerCase ?t) ''staying''" by code_simp
  have "''staying'' \<in> set KW_NEGATIVE" by (simp add: KW_NEGATIVE_def)
  with b have "\<exists>kw\<in>set KW_NEGATIVE. str_includes (toLowerCase ?t) kw" by blast
  with classifier_negative_priority[of ?t] have c: "classifyConfidence ?t = NEGATIVE"
    by blast
  have n1: "\<not> (\<exists>kw\<in>set KW_NEGATIVE. str_includes (toLowerCase ?u) kw)"
    by code_simp
  have c1: "\<exists>kw\<in>set KW_CONFIRMED. str_includes (toLowerCase ?u) kw"
    by code_simp
  from classifier_negative_priority[of ?u] n1 c1
  have d: "classifyConfidence ?u = CONFIRMED"
    by presburger
  from a b c d show ?thesis by blast
qed
section \<open>Results: market resolver\<close>

lemma find_SomeD: "find P xs = Some x \<Longrightarrow> P x \<and> x \<in> set xs"
  by (auto simp: find_Some_iff)

lemma partialMatch_unfold:
  "partialMatch s m \<longleftrightarrow>
     4 \<le> length (lastWord (splitSpace (normalizeName (player_name m)))) \<and>
     lastWord (splitSpace (normalizeName (player_name m))) = lastWord (splitSpace s) \<and>
     firstWord (splitSpace (normalizeName (player_name m))) = firstWord (splitSpace s)"
  by (simp add: partialMatch_def Let_def)

lemma findTradeMarket_Some:
  assumes "findTradeMarket ms n = Some m"
  shows "m \<in> set ms \<and> (exactMatch (normalizeName n) m \<or> partialMatch (normalizeName n) m)"
proof (cases "find (exactMatch (normalizeName n)) ms")
  case None
  with assms have "find (partialMatch (normalizeName n)) ms = Some m"
    by (simp add: findTradeMarket_def Let_def)
  then show ?thesis by (auto simp: find_Some_iff)
next
  case (Some a)
  with assms have "find (exactMatch (normalizeName n)) ms = Some m"
    by (simp add: findTradeMarket_def Let_def)
  then show ?thesis by (auto simp: find_Some_iff)
qed

lemma findTradeMarket_None:
  "findTradeMarket ms n = None \<longleftrightarrow>
     (\<forall>m\<in>set ms. \<not> exactMatch (normalizeName n) m \<and> \<not> partialMatch (normalizeName n) m)"
proof (cases "find (exactMatch (normalizeName n)) ms")
  case None
  then have "findTradeMarket ms n = find (partialMatch (normalizeName n)) ms"
    by (simp add: findTradeMarket_def Let_def)
  with None show ?thesis
    by (auto simp: find_None_iff)
next
  case (Some a)
  then have "findTradeMarket ms n = Some a"
    by (simp add: findTradeMarket_def Let_def)
  moreover from Some have "exactMatch (normalizeName n) a \<and> a \<in> set ms"
    by (rule find_SomeD)
  ultimately show ?thesis by auto
qed

text \<open>
  Claim C6: \<^verbatim>\<open>findTradeMarket\<close> returns a market only when that market is one of the
  cached markets and either its normalized player name equals the normalized search name
  (\<^verbatim>\<open>normalizeName\<close>: lower case, periods removed, white space collapsed and trimmed) or
  the first words and the last words of the two normalized names are equal and the last
  word has at least 4 characters. When no cached market meets either condition the result
  is \<^verbatim>\<open>null\<close>; so it is for the search \<^verbatim>\<open>J. Smith\<close> against the markets of John Smith
  and Jon Smith.
\<close>

theorem resolver_strict:
  "(findTradeMarket ms n = Some m \<longrightarrow>
      m \<in> set ms \<and>
      (normalizeName (player_name m) = normalizeName n \<or>
       (firstWord (splitSpace (normalizeName (player_name m))) = firstWord (splitSpace (normalizeName n)) \<and>
        lastWord (splitSpace (normalizeName (player_name m))) = lastWord (splitSpace (normalizeName n)) \<and>
        4 \<le> length (lastWord (splitSpace (normalizeName (player_name m)))))))
   \<and> ((\<forall>k\<in>set ms.
         normalizeName (player_name k) \<noteq> normalizeName n \<and>
         \<not> (firstWord (splitSpace (normalizeName (player_name k))) = firstWord (splitSpace (normalizeName n)) \<and>
            lastWord (splitSpace (normalizeName (player_name k))) = lastWord (splitSpace (normalizeName n)) \<and>
            4 \<le> length (lastWord (splitSpace (normalizeName (player_name k))))))
        \<longrightarrow> findTradeMarket ms n = None)
   \<and> findTradeMarket
         [\<lparr>ticker = ''KXNBATRADE-JOHN'', player_name = ''John Smith'', yes_price = Some (2 / 5),
            volume = 20000, open_interest = 900\<rparr>,
          \<lparr>ticker = ''KXNBATRADE-JON'', player_name = ''Jon Smith'', yes_price = Some (1 / 5),
            volume = 18000, open_interest = 700\<rparr>]
         ''J. Smith'' = None"
proof (intro conjI)
  show "findTradeMarket ms n = Some m \<longrightarrow>
      m \<in> set ms \<and>
      (normalizeName (player_name m) = normalizeName n \<or>
       (firstWord (splitSpace (normalizeName (player_name m))) = firstWord (splitSpace (normalizeName n)) \<and>
        lastWord (splitSpace (normalizeName (player_name m))) = lastWord (splitSpace (normalizeName n)) \<and>
        4 \<le> length (lastWord (splitSpace (normalizeName (player_name m))))))"
    using findTradeMarket_Some[of ms n m]
    by (auto simp: exactMatch_def partialMatch_unfold)
next
  show "(\<forall>k\<in>set ms.
         normalizeName (player_name k) \<noteq> normalizeName n \<and>
         \<not> (firstWord (splitSpace (normalizeName (player_name k))) = firstWord (splitSpace (normalizeName n)) \<and>
            lastWord (splitSpace (normalizeName (player_name k))) = lastWord (splitSpace (normalizeName n)) \<and>
            4 \<le> length (lastWord (splitSpace (normalizeName (player_name k))))))
        \<longrightarrow> findTradeMarket ms n = None"
    unfolding findTradeMarket_None by (auto simp: exactMatch_def partialMatch_unfold)
next
  show "findTradeMarket
         [\<lparr>ticker = ''KXNBATRADE-JOHN'', player_name = ''John Smith'', yes_price = Some (2 / 5),
            volume = 20000, open_interest = 900\<rparr>,
          \<lparr>ticker = ''KXNBATRADE-JON'', player_name = ''Jon Smith'', yes_price = Some (1 / 5),
            volume = 18000, open_interest = 700\<rparr>]
         ''J. Smith'' = None"
    by code_simp
qed

theorem resolver_strict_witness:
  "findTradeMarket
     [\<lparr>ticker = ''KXNBATRADE-JOHN'', player_name = ''John Smith'', yes_price = Some (2 / 5),
        volume = 20000, open_interest = 900\<rparr>,
      \<lparr>ticker = ''KXNBATRADE-JON'', player_name = ''Jon Smith'', yes_price = Some (1 / 5),
        volume = 18000, open_interest = 700\<rparr>]
     ''JON  Smith.''
   = Some \<lparr>ticker = ''KXNBATRADE-JON'', player_name = ''Jon Smith'', yes_price = Some (1 / 5),
        volume = 18000, open_interest = 700\<rparr>
   \<and> normalizeName ''Jon Smith'' = normalizeName ''JON  Smith.''
   \<and> findTradeMarket
     [\<lparr>ticker = ''KXNBATRADE-JOHN'', player_name = ''John Smith'', yes_price = Some (2 / 5),
        volume = 20000, open_interest = 900\<rparr>]
     ''Jo Smith'' = None"
proof -
  let ?john = "\<lparr>ticker = ''KXNBATRADE-JOHN'', player_name = ''John Smith'',
     yes_price = Some (2 / 5), volume = 20000, open_interest = 900\<rparr> :: TradeMarket"
  let ?jon = "\<lparr>ticker = ''KXNBATRADE-JON'', player_name = ''Jon Smith'',
     yes_price = Some (1 / 5), volume = 18000, open_interest = 700\<rparr> :: TradeMarket"
  have f: "findTradeMarket [?john, ?jon] ''JON  Smith.'' = Some ?jon"
    by code_simp
  have g: "normalizeName ''Jon Smith'' = normalizeName ''JON  Smith.''"
    by code_simp
  have l: "lastWord (splitSpace (normalizeName ''John Smith''))
             = lastWord (splitSpace (normalizeName ''Jo Smith''))"
    by code_simp
  have h: "normalizeName ''John Smith'' \<noteq> normalizeName ''Jo Smith''
       \<and> firstWord (splitSpace (normalizeName ''John Smith''))
             \<noteq> firstWord (splitSpace (normalizeName ''Jo Smith''))"
    by code_simp
  from h resolver_strict [of "[?john]" "''Jo Smith''" ?jon]
  have n: "findTradeMarket [?john] ''Jo Smith'' = None"
    by simp
  from resolver_strict [of "[?john, ?jon]" "''JON  Smith.''" ?jon] f
  have "?jon \<in> set [?john, ?jon]" by blast
  with f g n show ?thesis by blast
qed

section \<open>Results: order execution\<close>

lemma emit_simps [simp]:
  "recentBuys (emit es st) = recentBuys st"
  "pendingSellOrders (emit es st) = pendingSellOrders st"
  "priceHistory (emit es st) = priceHistory st"
  "tradeMarkets (emit es st) = tradeMarkets st"
  "nextTeamMarkets (emit es st) = nextTeamMarkets st"
  "botSettings (emit es st) = botSettings st"
  "trace (emit es st) = trace st @ es"
  by (simp_all add: emit_def)

lemma placeOrder_disabled:
  "placeOrder env st tk sd act cnt maxP sg =
     (emit [Console (Log_trading_disabled act cnt sd tk maxP)] st, Failure Trading_disabled)"
  by (simp add: placeOrder_def placeOrder_body_def NBA_TRADING_DISABLED_def)

lemma submitOrder_Failure:
  "snd (submitOrder env st tk sd act cnt p sg) = Failure e \<Longrightarrow>
     recentBuys (fst (submitOrder env st tk sd act cnt p sg)) = recentBuys st"
  by (simp add: submitOrder_def Let_def split: order_reply.splits)

lemma submitOrder_changes:
  "recentBuys (fst (submitOrder env st tk sd act cnt p sg)) \<noteq> recentBuys st \<Longrightarrow>
     act = buy \<and> (\<exists>oid stat. reply env = Reply_ok oid stat)"
  by (simp add: submitOrder_def Let_def split: order_reply.splits if_splits)

lemma emit_emit [simp]: "emit es (emit fs st) = emit (fs @ es) st"
  by (simp add: emit_def)

lemma placeOrder_body_cases:
  "((d \<or> act = buy) \<and>
    (\<exists>es err. placeOrder_body d env st tk sd act cnt maxP sg = (emit es st, Failure err)
        \<and> (\<forall>order. Post_order order \<notin> set es)))
   \<or> (\<not> d \<and> \<not> (act = buy \<and> dedupBlocked (recentBuys st) tk (now_check env)) \<and>
       (\<exists>es p. placeOrder_body d env st tk sd act cnt maxP sg
                 = submitOrder env (emit es st) tk sd act cnt p sg))"
proof (cases "d \<or> (act = buy \<and> dedupBlocked (recentBuys st) tk (now_check env))")
  case True
  then show ?thesis
    by (auto simp: placeOrder_body_def)
next
  case False
  obtain ya na where ob: "getOrderbook (orderbook env) = (ya, na)"
    by (cases "getOrderbook (orderbook env)")
  obtain rp rl where rf: "referencePrice (if sd = yes then ya else na)
        (lastPriceOf sd (cachedYesPriceCents (cachedMarket st tk))) = (rp, rl)"
    by (cases "referencePrice (if sd = yes then ya else na)
        (lastPriceOf sd (cachedYesPriceCents (cachedMarket st tk)))")
  have rl: "\<forall>order. Post_order order \<notin> set rl"
    using rf by (auto simp: referencePrice_def split: option.splits if_splits)
  show ?thesis
  proof (cases "act = sell")
    case True
    obtain p es where sp: "sellPrice tk rp maxP = (p, es)"
      by (cases "sellPrice tk rp maxP")
    from False True ob rf sp show ?thesis
      by (auto simp: placeOrder_body_def Let_def)
  next
    case ns: False
    obtain r es where bp: "buyPrice tk rp maxP sg = (r, es)"
      by (cases "buyPrice tk rp maxP sg")
    show ?thesis
    proof (cases r)
      case (Inl err)
      have "\<forall>order. Post_order order \<notin> set es"
        using bp Inl by (auto simp: buyPrice_def Let_def split: option.splits if_splits)
      moreover have "act = buy"
        using ns by (cases act) simp_all
      ultimately show ?thesis
        using rl False ns ob rf bp Inl
        by (auto simp: placeOrder_body_def Let_def)
    next
      case (Inr p)
      with False ns ob rf bp show ?thesis
        by (auto simp: placeOrder_body_def Let_def)
    qed
  qed
qed

lemma placeOrder_body_Failure:
  assumes "snd (placeOrder_body d env st tk sd act cnt maxP sg) = Failure e"
  shows "recentBuys (fst (placeOrder_body d env st tk sd act cnt maxP sg)) = recentBuys st"
proof -
  from placeOrder_body_cases [where d = d and act = act and env = env and st = st and tk = tk
      and sd = sd and cnt = cnt and maxP = maxP and sg = sg]
  consider (guard) es err where
      "placeOrder_body d env st tk sd act cnt maxP sg = (emit es st, Failure err)"
    | (submit) es p where
      "placeOrder_body d env st tk sd act cnt maxP sg
         = submitOrder env (emit es st) tk sd act cnt p sg"
    by blast
  then show ?thesis
  proof cases
    case guard
    then show ?thesis by simp
  next
    case submit
    with assms have "snd (submitOrder env (emit es st) tk sd act cnt p sg) = Failure e"
      by simp
    from submitOrder_Failure [OF this] submit show ?thesis by simp
  qed
qed

lemma placeOrder_body_changes:
  assumes "recentBuys (fst (placeOrder_body d env st tk sd act cnt maxP sg)) \<noteq> recentBuys st"
  shows "\<not> d \<and> act = buy \<and> (\<exists>oid stat. reply env = Reply_ok oid stat)"
proof -
  from placeOrder_body_cases [where d = d and act = act and env = env and st = st and tk = tk
      and sd = sd and cnt = cnt and maxP = maxP and sg = sg]
  consider (guard) es err where
      "placeOrder_body d env st tk sd act cnt maxP sg = (emit es st, Failure err)"
    | (submit) es p where "\<not> d"
      "placeOrder_body d env st tk sd act cnt maxP sg
         = submitOrder env (emit es st) tk sd act cnt p sg"
    by blast
  then show ?thesis
  proof cases
    case guard
    with assms show ?thesis by simp
  next
    case submit
    with assms
    have "recentBuys (fst (submitOrder env (emit es st) tk sd act cnt p sg))
            \<noteq> recentBuys (emit es st)"
      by simp
    from submitOrder_changes [OF this] submit(1) show ?thesis by simp
  qed
qed

lemma submitOrder_Success:
  "snd (submitOrder env st tk sd act cnt p sg) = Success oid \<longleftrightarrow>
     (\<exists>stat. reply env = Reply_ok oid stat)"
  by (auto simp: submitOrder_def Let_def split: order_reply.splits)

lemma submitOrder_buy_tracks:
  assumes "reply env = Reply_ok oid stat"
  shows "recentBuys (fst (submitOrder env st tk sd buy cnt p sg))
           = trackBuy (recentBuys st) tk (now_track env) (now_cleanup env)"
  using assms by (simp add: submitOrder_def Let_def)

lemma placeOrder_body_buy_Success:
  assumes "placeOrder_body d env st tk sd buy cnt maxP sg = (st', Success oid)"
  shows "recentBuys st' = trackBuy (recentBuys st) tk (now_track env) (now_cleanup env)"
proof -
  from placeOrder_body_cases [where d = d and act = buy and env = env and st = st and tk = tk
      and sd = sd and cnt = cnt and maxP = maxP and sg = sg] assms
  obtain es p where s: "submitOrder env (emit es st) tk sd buy cnt p sg = (st', Success oid)"
    by auto
  then have "snd (submitOrder env (emit es st) tk sd buy cnt p sg) = Success oid" by simp
  then obtain stat where "reply env = Reply_ok oid stat"
    by (auto simp: submitOrder_Success)
  from submitOrder_buy_tracks[OF this, of "emit es st" tk sd cnt p sg] s show ?thesis by simp
qed

lemma trackBuy_same:
  "cleaned - tracked \<le> DEDUP_COOLDOWN_MS \<Longrightarrow> trackBuy rb tk tracked cleaned tk = Some tracked"
  by (simp add: trackBuy_def)

lemma dedup_rejects:
  assumes "dedupBlocked (recentBuys st) tk (now_check env)"
  shows "placeOrder_body False env st tk sd buy cnt maxP sg =
           (emit [Console (Log_skip_dedup tk (secsAgo (recentBuys st) tk (now_check env)))] st,
            Failure (Dedup_bought_ago (secsAgo (recentBuys st) tk (now_check env))))"
  using assms by (simp add: placeOrder_body_def)

lemma sell_is_submitted:
  "\<exists>es p. placeOrder_body False env st tk sd sell cnt maxP sg
            = submitOrder env (emit es st) tk sd sell cnt p sg"
  using placeOrder_body_cases [where d = False and act = sell and env = env and st = st and tk = tk
      and sd = sd and cnt = cnt and maxP = maxP and sg = sg] by simp

lemma submitOrder_posts:
  "Post_order \<lparr>order_ticker = tk, order_side = sd, order_action = act,
                 order_count = cnt, order_price = p\<rparr>
     \<in> set (trace (fst (submitOrder env st tk sd act cnt p sg)))"
  by (simp add: submitOrder_def Let_def split: order_reply.splits)

lemma submitOrder_not_dedup:
  "snd (submitOrder env st tk sd act cnt p sg) \<noteq> Failure (Dedup_bought_ago n)"
  by (simp add: submitOrder_def Let_def split: order_reply.splits)

lemma sell_reaches_exchange:
  "\<exists>p. Post_order \<lparr>order_ticker = tk, order_side = sd, order_action = sell,
                    order_count = cnt, order_price = p\<rparr>
         \<in> set (trace (fst (placeOrder_body False env st tk sd sell cnt maxP sg)))"
proof -
  from sell_is_submitted [of env st tk sd cnt maxP sg] obtain es p where
    "placeOrder_body False env st tk sd sell cnt maxP sg
       = submitOrder env (emit es st) tk sd sell cnt p sg" by blast
  with submitOrder_posts [of tk sd sell cnt p env "emit es st" sg] show ?thesis
    by auto
qed

lemma sell_not_dedup:
  "snd (placeOrder_body False env st tk sd sell cnt maxP sg) \<noteq> Failure (Dedup_bought_ago n)"
proof -
  from sell_is_submitted [of env st tk sd cnt maxP sg] obtain es p where
    "placeOrder_body False env st tk sd sell cnt maxP sg
       = submitOrder env (emit es st) tk sd sell cnt p sg" by blast
  with submitOrder_not_dedup [of env "emit es st" tk sd sell cnt p sg n] show ?thesis
    by simp
qed






lemma fixture_buy_accepted:
  "snd (placeOrder_body False (envAccept 1770000000000) state0 ''KXNBATRADE-X'' yes buy 100 99
          signalX) = Success ''order-1''"
  by (simp add: placeOrder_body_def envAccept_def state0_def marketX_def signalX_def
      getOrderbook_def cachedMarket_def cachedYesPriceCents_def lastPriceOf_def Math_round_def
      referencePrice_def buyPrice_def submitOrder_def emit_def Let_def Market.truncate_def
      CONFIRMED_def dedupBlocked_def)

lemma fixture_buy_above_max:
  "snd (placeOrder_body False (envAccept 1770000000000) state0 ''KXNBATRADE-X'' yes buy 100 40
          signalX) = Failure (Market_above_tier_max 50 40)"
  by (simp add: placeOrder_body_def envAccept_def state0_def marketX_def signalX_def
      getOrderbook_def cachedMarket_def cachedYesPriceCents_def lastPriceOf_def Math_round_def
      referencePrice_def buyPrice_def submitOrder_def emit_def Let_def Market.truncate_def
      CONFIRMED_def dedupBlocked_def)

text \<open>
  Claim C2: the kill switch \<^verbatim>\<open>NBA_TRADING_DISABLED\<close> is \<^verbatim>\<open>true\<close>, so every call of
  \<^verbatim>\<open>placeOrder\<close>, whatever its ticker, side, action, count, maximum price and signal,
  returns the failure \<^verbatim>\<open>Trading disabled\<close> at once: the only effect is one console
  line. The deduplication map is not read or written, the exchange is not contacted
  (no order book request, no order), no notification is requested and no trade is
  recorded.
\<close>

theorem kill_switch_blocks_every_order:
  "NBA_TRADING_DISABLED
   \<and> snd (placeOrder env st tk sd act cnt maxP sg) = Failure Trading_disabled
   \<and> fst (placeOrder env st tk sd act cnt maxP sg)
       = st\<lparr>trace := trace st @ [Console (Log_trading_disabled act cnt sd tk maxP)]\<rparr>
   \<and> recentBuys (fst (placeOrder env st tk sd act cnt maxP sg)) = recentBuys st"
  by (simp add: placeOrder_disabled NBA_TRADING_DISABLED_def emit_def)

theorem kill_switch_blocks_every_order_witness:
  "snd (placeOrder (envAccept 1770000000000) state0 ''KXNBATRADE-X'' no buy 50 85 signalX)
     = Failure Trading_disabled
   \<and> trace (fst (placeOrder (envAccept 1770000000000) state0 ''KXNBATRADE-X'' no buy 50 85
                   signalX))
       = [Console (Log_trading_disabled buy 50 no ''KXNBATRADE-X'' 85)]
   \<and> recentBuys (fst (placeOrder (envAccept 1770000000000) state0 ''KXNBATRADE-X'' no buy 50 85
                        signalX)) ''KXNBATRADE-X'' = None
   \<and> snd (placeOrder (envAccept 1770000000000) state0 ''KXNBATRADE-X'' yes sell 10 93 signalX)
       = Failure Trading_disabled"
  using kill_switch_blocks_every_order
          [of "envAccept 1770000000000" state0 "''KXNBATRADE-X''" no buy 50 85 signalX]
        kill_switch_blocks_every_order
          [of "envAccept 1770000000000" state0 "''KXNBATRADE-X''" yes sell 10 93 signalX]
  by (simp add: state0_def)

text \<open>
  Claim C4, as stated, promises one successful order out of two equal buys. With the
  kill switch of the source both calls of \<^verbatim>\<open>placeOrder\<close> are rejected as
  \<^verbatim>\<open>Trading disabled\<close>: there is no successful order and no deduplication error.
\<close>

theorem two_buys_counterexample:
  "snd (placeOrder (envAccept 1770000000000) state0 ''KXNBATRADE-X'' yes buy 100 99 signalX)
     = Failure Trading_disabled
   \<and> snd (placeOrder (envAccept 1770000060000)
            (fst (placeOrder (envAccept 1770000000000) state0 ''KXNBATRADE-X'' yes buy 100 99
                    signalX))
            ''KXNBATRADE-X'' yes buy 100 99 signalX)
       = Failure Trading_disabled"
  by (simp add: placeOrder_disabled)

text \<open>
  Claim C4, amended: past the kill switch (the body of \<^verbatim>\<open>placeOrder\<close> with the switch
  off), after a buy on a ticker that the exchange accepted and that was tracked at a
  non-zero clock reading, any further buy request for that ticker whose clock reading
  is less than 5 minutes (300000 ms) after the tracked one is rejected with the
  deduplication error: its only effect is one console line, nothing is submitted or
  retried. A sell request is never rejected by the cool-down: it always reaches the
  exchange. With the kill switch as it stands in the source, every buy is rejected as
  \<^verbatim>\<open>Trading disabled\<close> instead.
\<close>

theorem dedup_cooldown:
  "(placeOrder_body False env1 st tk sd1 buy cnt1 maxP1 sg1 = (st1, Success oid)
      \<and> now_track env1 \<noteq> 0
      \<and> now_cleanup env1 - now_track env1 \<le> DEDUP_COOLDOWN_MS
      \<and> now_check env2 - now_track env1 < DEDUP_COOLDOWN_MS
    \<longrightarrow> placeOrder_body False env2 st1 tk sd2 buy cnt2 maxP2 sg2
          = (st1\<lparr>trace := trace st1 @
                  [Console (Log_skip_dedup tk
                     (Math_round (real_of_int (now_check env2 - now_track env1) / 1000)))]\<rparr>,
             Failure (Dedup_bought_ago
                     (Math_round (real_of_int (now_check env2 - now_track env1) / 1000)))))
   \<and> snd (placeOrder_body False env st tk sd sell cnt maxP sg) \<noteq> Failure (Dedup_bought_ago n)
   \<and> (\<exists>p. Post_order \<lparr>order_ticker = tk, order_side = sd, order_action = sell,
                        order_count = cnt, order_price = p\<rparr>
             \<in> set (trace (fst (placeOrder_body False env st tk sd sell cnt maxP sg))))
   \<and> snd (placeOrder env st tk sd buy cnt maxP sg) = Failure Trading_disabled"
proof (intro conjI impI)
  assume a: "placeOrder_body False env1 st tk sd1 buy cnt1 maxP1 sg1 = (st1, Success oid)
      \<and> now_track env1 \<noteq> 0
      \<and> now_cleanup env1 - now_track env1 \<le> DEDUP_COOLDOWN_MS
      \<and> now_check env2 - now_track env1 < DEDUP_COOLDOWN_MS"
  then have "placeOrder_body False env1 st tk sd1 buy cnt1 maxP1 sg1 = (st1, Success oid)"
    by simp
  then have "recentBuys st1 = trackBuy (recentBuys st) tk (now_track env1) (now_cleanup env1)"
    by (rule placeOrder_body_buy_Success)
  with a have rb: "recentBuys st1 tk = Some (now_track env1)"
    by (simp add: trackBuy_same)
  with a have "dedupBlocked (recentBuys st1) tk (now_check env2)"
    by (simp add: dedupBlocked_def)
  from dedup_rejects [OF this, of sd2 cnt2 maxP2 sg2] rb
  show "placeOrder_body False env2 st1 tk sd2 buy cnt2 maxP2 sg2
          = (st1\<lparr>trace := trace st1 @
                  [Console (Log_skip_dedup tk
                     (Math_round (real_of_int (now_check env2 - now_track env1) / 1000)))]\<rparr>,
             Failure (Dedup_bought_ago
                     (Math_round (real_of_int (now_check env2 - now_track env1) / 1000))))"
    by (simp add: secsAgo_def emit_def)
next
  show "snd (placeOrder_body False env st tk sd sell cnt maxP sg) \<noteq> Failure (Dedup_bought_ago n)"
    by (rule sell_not_dedup)
next
  show "\<exists>p. Post_order \<lparr>order_ticker = tk, order_side = sd, order_action = sell,
                        order_count = cnt, order_price = p\<rparr>
             \<in> set (trace (fst (placeOrder_body False env st tk sd sell cnt maxP sg)))"
    by (rule sell_reaches_exchange)
next
  show "snd (placeOrder env st tk sd buy cnt maxP sg) = Failure Trading_disabled"
    by (simp add: placeOrder_disabled)
qed

theorem dedup_cooldown_witness:
  "snd (placeOrder_body False (envAccept 1770000000000) state0 ''KXNBATRADE-X'' yes buy 100 99
          signalX) = Success ''order-1''
   \<and> now_track (envAccept 1770000000000) \<noteq> 0
   \<and> now_cleanup (envAccept 1770000000000) - now_track (envAccept 1770000000000)
        \<le> DEDUP_COOLDOWN_MS
   \<and> now_check (envAccept 1770000060000) - now_track (envAccept 1770000000000)
        < DEDUP_COOLDOWN_MS
   \<and> snd (placeOrder_body False (envAccept 1770000060000)
            (fst (placeOrder_body False (envAccept 1770000000000) state0 ''KXNBATRADE-X'' yes buy
                    100 99 signalX))
            ''KXNBATRADE-X'' yes buy 100 99 signalX)
       = Failure (Dedup_bought_ago 60)"
proof -
  let ?first = "placeOrder_body False (envAccept 1770000000000) state0 ''KXNBATRADE-X'' yes buy
                  100 99 signalX"
  have ok: "snd ?first = Success ''order-1''"
    by (rule fixture_buy_accepted)
  then have eq: "?first = (fst ?first, Success ''order-1'')"
    by (simp add: prod_eq_iff)
  have t: "now_track (envAccept 1770000000000) \<noteq> 0
     \<and> now_cleanup (envAccept 1770000000000) - now_track (envAccept 1770000000000)
          \<le> DEDUP_COOLDOWN_MS
     \<and> now_check (envAccept 1770000060000) - now_track (envAccept 1770000000000)
          < DEDUP_COOLDOWN_MS"
    by (simp add: envAccept_def DEDUP_COOLDOWN_MS_def)
  have r: "Math_round (real_of_int (now_check (envAccept 1770000060000)
                         - now_track (envAccept 1770000000000)) / 1000) = 60"
    by (simp add: envAccept_def Math_round_def)
  from dedup_cooldown [of "envAccept 1770000000000" state0 "''KXNBATRADE-X''" yes 100 99 signalX
      "fst ?first" "''order-1''" "envAccept 1770000060000" yes 100 99 signalX] eq t
  have "snd (placeOrder_body False (envAccept 1770000060000) (fst ?first)
              ''KXNBATRADE-X'' yes buy 100 99 signalX)
          = Failure (Dedup_bought_ago
              (Math_round (real_of_int (now_check (envAccept 1770000060000)
                             - now_track (envAccept 1770000000000)) / 1000)))"
    by simp
  with r ok t show ?thesis by simp
qed




text \<open>
  Claim C10: the deduplication timestamp of a ticker is written only after the exchange
  accepted a buy order. Whatever the kill switch, a call that ends in a failure (the kill
  switch, the cool-down, the near-certainty ceiling, the tier price ceiling, a rejected
  or failed submission) leaves \<^verbatim>\<open>recentBuys\<close> as it was, so the cool-down test of any
  later buy gives what it gave before; a call that changes \<^verbatim>\<open>recentBuys\<close> is a buy past
  the kill switch that the exchange accepted. \<^verbatim>\<open>placeOrder\<close> as it stands never changes
  the map.
\<close>

theorem dedup_timestamp_only_after_acceptance:
  "(snd (placeOrder_body d env st tk sd act cnt maxP sg) = Failure e \<longrightarrow>
      recentBuys (fst (placeOrder_body d env st tk sd act cnt maxP sg)) = recentBuys st
      \<and> dedupBlocked (recentBuys (fst (placeOrder_body d env st tk sd act cnt maxP sg))) tk' t
          = dedupBlocked (recentBuys st) tk' t)
   \<and> (recentBuys (fst (placeOrder_body d env st tk sd act cnt maxP sg)) \<noteq> recentBuys st \<longrightarrow>
        \<not> d \<and> act = buy \<and> (\<exists>oid stat. reply env = Reply_ok oid stat))
   \<and> recentBuys (fst (placeOrder env st tk sd act cnt maxP sg)) = recentBuys st"
proof (intro conjI impI)
  assume f: "snd (placeOrder_body d env st tk sd act cnt maxP sg) = Failure e"
  then show r: "recentBuys (fst (placeOrder_body d env st tk sd act cnt maxP sg)) = recentBuys st"
    by (rule placeOrder_body_Failure)
  then show "dedupBlocked (recentBuys (fst (placeOrder_body d env st tk sd act cnt maxP sg))) tk' t
          = dedupBlocked (recentBuys st) tk' t"
    by simp
next
  assume "recentBuys (fst (placeOrder_body d env st tk sd act cnt maxP sg)) \<noteq> recentBuys st"
  then show "\<not> d" "act = buy" "\<exists>oid stat. reply env = Reply_ok oid stat"
    using placeOrder_body_changes [of d env st tk sd act cnt maxP sg] by simp_all
next
  show "recentBuys (fst (placeOrder env st tk sd act cnt maxP sg)) = recentBuys st"
    by (simp add: placeOrder_disabled)
qed

theorem dedup_timestamp_only_after_acceptance_witness:
  "snd (placeOrder_body False (envAccept 1770000000000) state0 ''KXNBATRADE-X'' yes buy 100 40
          signalX) = Failure (Market_above_tier_max 50 40)
   \<and> recentBuys (fst (placeOrder_body False (envAccept 1770000000000) state0 ''KXNBATRADE-X'' yes
                        buy 100 40 signalX)) ''KXNBATRADE-X'' = None
   \<and> \<not> dedupBlocked
         (recentBuys (fst (placeOrder_body False (envAccept 1770000000000) state0
                             ''KXNBATRADE-X'' yes buy 100 40 signalX)))
         ''KXNBATRADE-X'' 1770000000001"
proof -
  let ?call = "placeOrder_body False (envAccept 1770000000000) state0 ''KXNBATRADE-X'' yes buy
                 100 40 signalX"
  have f: "snd ?call = Failure (Market_above_tier_max 50 40)"
    by (rule fixture_buy_above_max)
  from dedup_timestamp_only_after_acceptance [of False "envAccept 1770000000000" state0
      "''KXNBATRADE-X''" yes buy 100 40 signalX "Market_above_tier_max 50 40"
      "''KXNBATRADE-X''" 1770000000001] f
  have "recentBuys (fst ?call) = recentBuys state0"
    and "dedupBlocked (recentBuys (fst ?call)) ''KXNBATRADE-X'' 1770000000001
           = dedupBlocked (recentBuys state0) ''KXNBATRADE-X'' 1770000000001"
    by simp_all
  with f show ?thesis
    by (simp add: state0_def dedupBlocked_def)
qed
section \<open>Results: price movement detection\<close>

lemma setHistory_simps [simp]:
  "priceHistory (setHistory tk h st) = (priceHistory st)(tk \<mapsto> h)"
  "trace (setHistory tk h st) = trace st"
  "botSettings (setHistory tk h st) = botSettings st"
  "recentBuys (setHistory tk h st) = recentBuys st"
  "pendingSellOrders (setHistory tk h st) = pendingSellOrders st"
  "tradeMarkets (setHistory tk h st) = tradeMarkets st"
  "nextTeamMarkets (setHistory tk h st) = nextTeamMarkets st"
  by (simp_all add: setHistory_def)

lemma prunedWindow_prices:
  assumes "history_prices_nonzero st" "cur \<noteq> 0" "p \<in> set (prunedWindow now st tk cur)"
  shows "price p \<noteq> 0"
proof (cases "priceHistory st tk")
  case None
  with assms(2,3) show ?thesis
    by (auto simp: prunedWindow_def split: if_splits)
next
  case (Some h)
  with assms(1) have "\<forall>q\<in>set h. price q \<noteq> 0"
    by (simp add: history_prices_nonzero_def)
  with Some assms(2,3) show ?thesis
    by (auto simp: prunedWindow_def split: if_splits)
qed

lemma checkMarketPrice_history:
  "priceHistory (checkMarketPrice now st market) tk = Some h \<Longrightarrow>
     priceHistory st tk = Some h
     \<or> (\<exists>cur. yes_price market = Some cur \<and> cur \<noteq> 0 \<and> tk = ticker market \<and>
          (h = prunedWindow now st tk cur \<or> h = [\<lparr>price = cur, timestamp = now\<rparr>]))"
  by (auto simp: checkMarketPrice_def Let_def split: option.splits if_splits list.splits)

lemma checkMarketPrice_keeps_nonzero:
  assumes "history_prices_nonzero st"
  shows "history_prices_nonzero (checkMarketPrice now st market)"
  unfolding history_prices_nonzero_def
proof (intro allI impI ballI)
  fix tk h p
  assume h: "priceHistory (checkMarketPrice now st market) tk = Some h" and p: "p \<in> set h"
  from checkMarketPrice_history [OF h]
  consider (old) "priceHistory st tk = Some h"
    | (window) cur where "cur \<noteq> 0" "h = prunedWindow now st tk cur"
    | (reset) cur where "cur \<noteq> 0" "h = [\<lparr>price = cur, timestamp = now\<rparr>]"
    by blast
  then show "price p \<noteq> 0"
  proof cases
    case old
    with assms p show ?thesis by (auto simp: history_prices_nonzero_def)
  next
    case window
    with assms p show ?thesis by (auto dest: prunedWindow_prices)
  next
    case reset
    with p show ?thesis by simp
  qed
qed

lemma checkPriceMovements_keeps_nonzero:
  "history_prices_nonzero st \<Longrightarrow> history_prices_nonzero (checkPriceMovements now st)"
proof -
  have "history_prices_nonzero s \<Longrightarrow> history_prices_nonzero (foldl (checkMarketPrice now) s ms)"
    for s ms
    by (induction ms arbitrary: s) (simp_all add: checkMarketPrice_keeps_nonzero)
  then show "history_prices_nonzero st \<Longrightarrow> history_prices_nonzero (checkPriceMovements now st)"
    by (simp add: checkPriceMovements_def)
qed




section \<open>Results: profit taking\<close>


lemma sellCalls_simps [simp]:
  "sellCalls [] = []"
  "sellCalls (es @ fs) = sellCalls es @ sellCalls fs"
  "sellCalls (Console l # es) = sellCalls es"
  "sellCalls (Telegram n # es) = sellCalls es"
  "sellCalls (Get_fills tk # es) = sellCalls es"
  "sellCalls (Get_positions # es) = sellCalls es"
  "sellCalls (Get_resting_orders # es) = sellCalls es"
  "sellCalls (Set_timeout_clear_pending tk # es) = sellCalls es"
  "sellCalls (Call_executeSell tk sd cnt p # es) = Call_executeSell tk sd cnt p # sellCalls es"
  by (simp_all add: sellCalls_def isSellCall_def)

lemma sellCalls_strategyEffects [simp]:
  "sellCalls (strategyEffects rule nm pos avgEntry cents pct cnt) = []"
  by (cases rule) (simp_all add: strategyEffects_def)

lemma sellCalls_map_Console [simp]: "sellCalls (map (\<lambda>f. Console (g f)) fs) = []"
  by (induction fs) simp_all











lemma cachedMarket_emit [simp]: "cachedMarket (emit es st) tk = cachedMarket st tk"
  by (simp add: cachedMarket_def split: option.splits)

lemma positionVerdict_emit [simp]:
  "positionVerdict env (emit es st) pos = positionVerdict env st pos"
  by (simp add: positionVerdict_def Let_def cong: if_cong)






section \<open>Results: prices of a NO position\<close>









end
